theory Spec2Isabelle
  imports Complex_Main "HOL-Library.Sublist"
begin

section \<open>Data model of the notebook\<close>

text \<open>
  The notebook \<^verbatim>\<open>CarND-Object-Detection-Lab.ipynb\<close> works on NumPy arrays that the
  detector returns: \<^verbatim>\<open>boxes\<close> of shape (n, 4), \<^verbatim>\<open>scores\<close> and \<^verbatim>\<open>classes\<close> of shape (n).
  A finite floating-point value is a rational number, so array elements are \<^typ>\<open>rat\<close>;
  the rounding of floating-point multiplication is not part of this model.
  A row of \<^verbatim>\<open>boxes\<close> has the four components of columns 0, 1, 2 and 3.
\<close>

type_synonym box = "rat \<times> rat \<times> rat \<times> rat"

text \<open>The exceptions that the modelled Python and NumPy operations raise.\<close>

datatype error = IndexError | ValueError

subsection \<open>Arrays live in a store\<close>

text \<open>
  Python variables hold references to arrays, and NumPy assignments such as
  \<^verbatim>\<open>box_coords[:, 0] = ...\<close> write into the referenced array. The store maps a reference
  to the array it denotes: \<open>mats\<close> for arrays of shape (n, 4), \<open>vecs\<close> for arrays of
  shape (n). References below \<open>fresh\<close> are allocated.
\<close>

type_synonym ref = nat

record store =
  mats :: "ref \<Rightarrow> box list"
  vecs :: "ref \<Rightarrow> rat list"
  fresh :: ref

definition new_mat :: "store \<Rightarrow> box list \<Rightarrow> store \<times> ref" where
  "new_mat s rows = (s\<lparr>mats := (mats s)(fresh s := rows), fresh := Suc (fresh s)\<rparr>, fresh s)"

definition new_vec :: "store \<Rightarrow> rat list \<Rightarrow> store \<times> ref" where
  "new_vec s vals = (s\<lparr>vecs := (vecs s)(fresh s := vals), fresh := Suc (fresh s)\<rparr>, fresh s)"

text \<open>\<^verbatim>\<open>a[i]\<close> for a non-negative \<open>i\<close>: NumPy raises IndexError out of bounds.\<close>

definition np_get :: "'a list \<Rightarrow> nat \<Rightarrow> error + 'a" where
  "np_get xs i = (if i < length xs then Inr (xs ! i) else Inl IndexError)"

text \<open>
  \<^verbatim>\<open>a[idxs, ...]\<close> with a list of non-negative indices: a new array holding the rows
  of \<open>a\<close> at \<open>idxs\<close>, in the order of \<open>idxs\<close>; IndexError when an index is out of bounds.
\<close>

fun take_rows :: "'a list \<Rightarrow> nat list \<Rightarrow> error + 'a list" where
  "take_rows xs [] = Inr []"
| "take_rows xs (i # rest) =
     (case np_get xs i of
        Inl e \<Rightarrow> Inl e
      | Inr x \<Rightarrow> (case take_rows xs rest of Inl e \<Rightarrow> Inl e | Inr ys \<Rightarrow> Inr (x # ys)))"

section \<open>filter_boxes\<close>

text \<open>
  \<^verbatim>\<open>
  def filter_boxes(min_score, boxes, scores, classes):
      """Return boxes with a confidence >= `min_score`"""
      n = len(classes)
      idxs = []
      for i in range(n):
          if scores[i] >= min_score:
              idxs.append(i)

      filtered_boxes = boxes[idxs, ...]
      filtered_scores = scores[idxs, ...]
      filtered_classes = classes[idxs, ...]
      return filtered_boxes, filtered_scores, filtered_classes
  \<close>
  The loop runs over the remaining values of \<open>i\<close> and carries \<open>idxs\<close>.
\<close>

fun collect_idxs :: "rat \<Rightarrow> rat list \<Rightarrow> nat list \<Rightarrow> nat list \<Rightarrow> error + nat list" where
  "collect_idxs min_score scores [] idxs = Inr idxs"
| "collect_idxs min_score scores (i # rest) idxs =
     (case np_get scores i of
        Inl e \<Rightarrow> Inl e
      | Inr sc \<Rightarrow>
          (if sc \<ge> min_score
           then collect_idxs min_score scores rest (idxs @ [i])
           else collect_idxs min_score scores rest idxs))"

definition filter_boxes ::
  "store \<Rightarrow> rat \<Rightarrow> ref \<Rightarrow> ref \<Rightarrow> ref \<Rightarrow> error + (store \<times> ref \<times> ref \<times> ref)" where
  "filter_boxes s min_score boxes scores classes =
     (let n = length (vecs s classes) in
      case collect_idxs min_score (vecs s scores) [0..<n] [] of
        Inl e \<Rightarrow> Inl e
      | Inr idxs \<Rightarrow>
     (case take_rows (mats s boxes) idxs of
        Inl e \<Rightarrow> Inl e
      | Inr rows_b \<Rightarrow>
     (let (s1, filtered_boxes) = new_mat s rows_b in
      case take_rows (vecs s1 scores) idxs of
        Inl e \<Rightarrow> Inl e
      | Inr rows_s \<Rightarrow>
     (let (s2, filtered_scores) = new_vec s1 rows_s in
      case take_rows (vecs s2 classes) idxs of
        Inl e \<Rightarrow> Inl e
      | Inr rows_c \<Rightarrow>
     (let (s3, filtered_classes) = new_vec s2 rows_c in
      Inr (s3, filtered_boxes, filtered_scores, filtered_classes))))))"

text \<open>The detections of a batch, as the rows that share an index.\<close>

definition detections :: "store \<Rightarrow> ref \<Rightarrow> ref \<Rightarrow> ref \<Rightarrow> (box \<times> rat \<times> rat) list" where
  "detections s boxes scores classes = zip (mats s boxes) (zip (vecs s scores) (vecs s classes))"

definition score_of :: "box \<times> rat \<times> rat \<Rightarrow> rat" where
  "score_of d = fst (snd d)"

text \<open>The three arrays that a call has returned, read from the store it has left.\<close>

definition returned_batch ::
  "error + (store \<times> ref \<times> ref \<times> ref) \<Rightarrow> error + (box list \<times> rat list \<times> rat list)" where
  "returned_batch res =
     (case res of
        Inl e \<Rightarrow> Inl e
      | Inr (s', fb, fs, fc) \<Rightarrow> Inr (mats s' fb, vecs s' fs, vecs s' fc))"

section \<open>to_image_coords\<close>

text \<open>
  \<^verbatim>\<open>
  def to_image_coords(boxes, height, width):
      box_coords = np.zeros_like(boxes)
      box_coords[:, 0] = boxes[:, 0] * height
      box_coords[:, 1] = boxes[:, 1] * width
      box_coords[:, 2] = boxes[:, 2] * height
      box_coords[:, 3] = boxes[:, 3] * width

      return box_coords
  \<close>
  The four column indices that the function uses are the constructors of \<open>col\<close>.
\<close>

datatype col = Col0 | Col1 | Col2 | Col3

fun get_col :: "col \<Rightarrow> box \<Rightarrow> rat" where
  "get_col Col0 (c0, c1, c2, c3) = c0"
| "get_col Col1 (c0, c1, c2, c3) = c1"
| "get_col Col2 (c0, c1, c2, c3) = c2"
| "get_col Col3 (c0, c1, c2, c3) = c3"

fun set_col :: "col \<Rightarrow> rat \<Rightarrow> box \<Rightarrow> box" where
  "set_col Col0 v (c0, c1, c2, c3) = (v, c1, c2, c3)"
| "set_col Col1 v (c0, c1, c2, c3) = (c0, v, c2, c3)"
| "set_col Col2 v (c0, c1, c2, c3) = (c0, c1, v, c3)"
| "set_col Col3 v (c0, c1, c2, c3) = (c0, c1, c2, v)"

text \<open>\<^verbatim>\<open>np.zeros_like(a)\<close>: a new array of the shape of \<open>a\<close>, filled with zeros.\<close>

definition zeros_like :: "store \<Rightarrow> ref \<Rightarrow> store \<times> ref" where
  "zeros_like s a = new_mat s (map (\<lambda>row. (0, 0, 0, 0)) (mats s a))"

text \<open>\<^verbatim>\<open>a[:, k]\<close> read as a value, and \<^verbatim>\<open>v * x\<close> for a scalar \<open>x\<close>.\<close>

definition column :: "store \<Rightarrow> ref \<Rightarrow> col \<Rightarrow> rat list" where
  "column s a k = map (get_col k) (mats s a)"

definition times_scalar :: "rat list \<Rightarrow> rat \<Rightarrow> rat list" where
  "times_scalar v x = map (\<lambda>y. y * x) v"

text \<open>
  \<^verbatim>\<open>a[:, k] = v\<close> writes into the array that \<open>a\<close> refers to. NumPy broadcasts a
  value of length one and raises ValueError for any other length mismatch.
\<close>

definition assign_column :: "store \<Rightarrow> ref \<Rightarrow> col \<Rightarrow> rat list \<Rightarrow> error + store" where
  "assign_column s a k v =
     (if length v = length (mats s a)
      then Inr (s\<lparr>mats := (mats s)(a := map2 (set_col k) v (mats s a))\<rparr>)
      else if length v = 1
      then Inr (s\<lparr>mats := (mats s)(a := map (set_col k (hd v)) (mats s a))\<rparr>)
      else Inl ValueError)"

definition to_image_coords :: "store \<Rightarrow> ref \<Rightarrow> rat \<Rightarrow> rat \<Rightarrow> error + (store \<times> ref)" where
  "to_image_coords s boxes height width =
     (let (s0, box_coords) = zeros_like s boxes in
      case assign_column s0 box_coords Col0 (times_scalar (column s0 boxes Col0) height) of
        Inl e \<Rightarrow> Inl e
      | Inr s1 \<Rightarrow>
     (case assign_column s1 box_coords Col1 (times_scalar (column s1 boxes Col1) width) of
        Inl e \<Rightarrow> Inl e
      | Inr s2 \<Rightarrow>
     (case assign_column s2 box_coords Col2 (times_scalar (column s2 boxes Col2) height) of
        Inl e \<Rightarrow> Inl e
      | Inr s3 \<Rightarrow>
     (case assign_column s3 box_coords Col3 (times_scalar (column s3 boxes Col3) width) of
        Inl e \<Rightarrow> Inl e
      | Inr s4 \<Rightarrow> Inr (s4, box_coords)))))"

section \<open>draw_boxes\<close>

text \<open>
  \<^verbatim>\<open>
  def draw_boxes(image, boxes, classes, thickness=4):
      """Draw bounding boxes on the image"""
      draw = ImageDraw.Draw(image)
      for i in range(len(boxes)):
          bot, left, top, right = boxes[i, ...]
          class_id = int(classes[i])
          color = COLOR_LIST[class_id]
          draw.line([(left, top), (left, bot), (right, bot), (right, top), (left, top)],
                    width=thickness, fill=color)
  \<close>
  The image is the sequence of the lines drawn on it so far. \<^verbatim>\<open>COLOR_LIST\<close> is the sorted
  list of the colour names of the imaging library, a parameter here. The source's
  \<^verbatim>\<open>image\<close>, \<^verbatim>\<open>bot\<close> and \<^verbatim>\<open>top\<close> are \<open>img\<close>, \<open>bot'\<close> and \<open>top'\<close>. A line is recorded
  with the point sequence \<open>xy\<close> that \<^verbatim>\<open>draw.line\<close> receives, its \<^verbatim>\<open>width\<close> and its \<^verbatim>\<open>fill\<close>.
\<close>

type_synonym point = "rat \<times> rat"

record line =
  xy :: "point list"
  line_width :: int
  fill :: string

type_synonym image = "line list"

text \<open>\<^verbatim>\<open>int(x)\<close> of a finite float discards the fractional part.\<close>

definition py_int :: "rat \<Rightarrow> int" where
  "py_int x = (if 0 \<le> x then \<lfloor>x\<rfloor> else \<lceil>x\<rceil>)"

text \<open>
  \<^verbatim>\<open>xs[i]\<close> on a Python list: an index from \<open>-len(xs)\<close> up to \<open>-1\<close> counts from the
  end, an index outside \<open>-len(xs) .. len(xs) - 1\<close> raises IndexError.
\<close>

definition list_getitem :: "'a list \<Rightarrow> int \<Rightarrow> error + 'a" where
  "list_getitem xs i =
     (if 0 \<le> i \<and> i < int (length xs) then Inr (xs ! nat i)
      else if i < 0 \<and> - int (length xs) \<le> i then Inr (xs ! nat (int (length xs) + i))
      else Inl IndexError)"

text \<open>
  The loop over the remaining values of \<open>i\<close>. An exception leaves the lines drawn
  before it on the image.
\<close>

fun draw_loop ::
  "string list \<Rightarrow> box list \<Rightarrow> rat list \<Rightarrow> int \<Rightarrow> nat list \<Rightarrow> image \<Rightarrow> image \<times> error option" where
  "draw_loop COLOR_LIST boxes classes thickness [] img = (img, None)"
| "draw_loop COLOR_LIST boxes classes thickness (i # rest) img =
     (case np_get boxes i of
        Inl e \<Rightarrow> (img, Some e)
      | Inr (bot', left, top', right) \<Rightarrow>
     (case np_get classes i of
        Inl e \<Rightarrow> (img, Some e)
      | Inr cls \<Rightarrow>
     (let class_id = py_int cls in
      case list_getitem COLOR_LIST class_id of
        Inl e \<Rightarrow> (img, Some e)
      | Inr color \<Rightarrow>
          draw_loop COLOR_LIST boxes classes thickness rest
            (img @ [\<lparr>xy = [(left, top'), (left, bot'), (right, bot'), (right, top'), (left, top')],
                       line_width = thickness, fill = color\<rparr>]))))"

definition draw_boxes ::
  "string list \<Rightarrow> image \<Rightarrow> box list \<Rightarrow> rat list \<Rightarrow> int \<Rightarrow> image \<times> error option" where
  "draw_boxes COLOR_LIST img boxes classes thickness =
     draw_loop COLOR_LIST boxes classes thickness [0..<length boxes] img"

section \<open>Counting the parameters of the two convolution blocks\<close>

text \<open>
  \<^verbatim>\<open>
  def vanilla_conv_block(x, kernel_size, output_channels):
      x = tf.layers.conv2d(
          x, output_channels, kernel_size, (2, 2), padding='SAME')
      x = tf.layers.batch_normalization(x)
      return tf.nn.relu(x)

  def mobilenet_conv_block(x, kernel_size, output_channels):
      input_channel = x.shape.as_list()[-1]
      W = tf.Variable(tf.truncated_normal((kernel_size, kernel_size, input_channel, 1)))
      x = tf.nn.depthwise_conv2d(x, W, (1, 2, 2, 1), padding='SAME')
      x = tf.layers.batch_normalization(x)
      x = tf.nn.relu(x)
      x = tf.layers.conv2d(x, output_channels, (1, 1), padding='SAME')
      x = tf.layers.batch_normalization(x)
      return tf.nn.relu(x)
  \<close>
  The cell that follows them counts the elements of every trainable variable that a block
  has created. Which variables exist is decided by the framework calls, so the model
  records what each call adds to the collection of trainable variables, as TensorFlow 1.x
  documents it, and the error with which a call refuses an empty dimension:
  \<^item> \<^verbatim>\<open>tf.layers.conv2d\<close> creates a kernel of shape
    (kernel height, kernel width, input channels, filters) and, its argument
    \<^verbatim>\<open>use_bias\<close> being True unless the caller says otherwise, a bias of shape (filters);
    for an input without channels, and for \<^verbatim>\<open>filters = 0\<close>, it raises ValueError;
  \<^item> \<^verbatim>\<open>tf.layers.batch_normalization\<close> creates the trainable \<^verbatim>\<open>gamma\<close> and \<^verbatim>\<open>beta\<close>,
    each of shape (channels); its moving mean and variance are not trainable;
  \<^item> \<^verbatim>\<open>tf.Variable\<close> is trainable and has the shape of its initial value;
  \<^item> \<^verbatim>\<open>tf.nn.depthwise_conv2d\<close> and \<^verbatim>\<open>tf.nn.relu\<close> create no variable.
  Only the number of channels of a tensor matters for these shapes, so a tensor is
  modelled by its last dimension. A variable is known by the role that its name ends in.

  One behaviour of the framework depends on its release: batch normalization of an input
  without channels raises ValueError in the releases that test the channel dimension for
  being zero or undefined, and is accepted by the releases that test it for being
  undefined only. The flag \<open>rejects_empty\<close> says which framework runs the notebook.
\<close>

datatype role = Kernel | Bias | Gamma | Beta | Plain

record variable =
  role :: role
  shape :: "nat list"

type_synonym tensor = nat

type_synonym graph = "variable list"

definition conv2d ::
  "tensor \<Rightarrow> nat \<Rightarrow> nat \<times> nat \<Rightarrow> graph \<Rightarrow> error + (tensor \<times> graph)" where
  "conv2d x filters kernel_size g =
     (if x = 0 \<or> filters = 0 then Inl ValueError
      else Inr (filters,
        g @ [\<lparr>role = Kernel, shape = [fst kernel_size, snd kernel_size, x, filters]\<rparr>,
             \<lparr>role = Bias, shape = [filters]\<rparr>]))"

definition batch_normalization :: "bool \<Rightarrow> tensor \<Rightarrow> graph \<Rightarrow> error + (tensor \<times> graph)" where
  "batch_normalization rejects_empty x g =
     (if rejects_empty \<and> x = 0 then Inl ValueError
      else Inr (x, g @ [\<lparr>role = Gamma, shape = [x]\<rparr>, \<lparr>role = Beta, shape = [x]\<rparr>]))"

definition tf_Variable :: "nat list \<Rightarrow> graph \<Rightarrow> nat list \<times> graph" where
  "tf_Variable initial_shape g = (initial_shape, g @ [\<lparr>role = Plain, shape = initial_shape\<rparr>])"

text \<open>The filter of a depthwise convolution ends in the channel multiplier.\<close>

definition depthwise_conv2d :: "tensor \<Rightarrow> nat list \<Rightarrow> tensor" where
  "depthwise_conv2d x W = x * last W"

definition relu :: "tensor \<Rightarrow> tensor" where
  "relu x = x"

definition vanilla_conv_block ::
  "bool \<Rightarrow> tensor \<Rightarrow> nat \<Rightarrow> nat \<Rightarrow> graph \<Rightarrow> error + (tensor \<times> graph)" where
  "vanilla_conv_block rejects_empty x kernel_size output_channels g =
     (case conv2d x output_channels (kernel_size, kernel_size) g of
        Inl e \<Rightarrow> Inl e
      | Inr (x1, g1) \<Rightarrow>
     (case batch_normalization rejects_empty x1 g1 of
        Inl e \<Rightarrow> Inl e
      | Inr (x2, g2) \<Rightarrow> Inr (relu x2, g2)))"

definition mobilenet_conv_block ::
  "bool \<Rightarrow> tensor \<Rightarrow> nat \<Rightarrow> nat \<Rightarrow> graph \<Rightarrow> error + (tensor \<times> graph)" where
  "mobilenet_conv_block rejects_empty x kernel_size output_channels g =
     (let input_channel = x;
          (W, g1) = tf_Variable [kernel_size, kernel_size, input_channel, 1] g;
          x1 = depthwise_conv2d x W in
      case batch_normalization rejects_empty x1 g1 of
        Inl e \<Rightarrow> Inl e
      | Inr (x2, g2) \<Rightarrow>
     (let x3 = relu x2 in
      case conv2d x3 output_channels (1, 1) g2 of
        Inl e \<Rightarrow> Inl e
      | Inr (x4, g3) \<Rightarrow>
     (case batch_normalization rejects_empty x4 g3 of
        Inl e \<Rightarrow> Inl e
      | Inr (x5, g4) \<Rightarrow> Inr (relu x5, g4))))"

text \<open>
  \<^verbatim>\<open>
  INPUT_CHANNELS = 32
  OUTPUT_CHANNELS = 512
  KERNEL_SIZE = 3
  ...
      x = tf.constant(np.random.randn(1, IMG_HEIGHT, IMG_WIDTH, INPUT_CHANNELS), dtype=tf.float32)
      with tf.variable_scope('vanilla'):
          vanilla_conv = vanilla_conv_block(x, KERNEL_SIZE, OUTPUT_CHANNELS)
      with tf.variable_scope('mobile'):
          mobilenet_conv = mobilenet_conv_block(x, KERNEL_SIZE, OUTPUT_CHANNELS)
      vanilla_params = [
          (v.name, np.prod(v.get_shape().as_list()))
          for v in tf.get_collection(tf.GraphKeys.TRAINABLE_VARIABLES, 'vanilla')
      ]
      mobile_params = [ ... 'mobile' ... ]
      total_vanilla_params = sum([p[1] for p in vanilla_params])
      total_mobile_params = sum([p[1] for p in mobile_params])
      print("{0:.3f}x parameter reduction".format(total_vanilla_params /
                                               total_mobile_params))
  \<close>
  \<^verbatim>\<open>np.prod\<close> returns a 64-bit signed integer and wraps around, and so does the
  addition of two such integers. Their quotient is a float: for a divisor of zero NumPy
  warns and yields infinity or not-a-number, which is no rational number (\<open>None\<close>).
\<close>

definition wrap64 :: "int \<Rightarrow> int" where
  "wrap64 z = (z + 2 ^ 63) mod 2 ^ 64 - 2 ^ 63"

definition np_prod :: "nat list \<Rightarrow> int" where
  "np_prod dims = foldl (\<lambda>acc d. wrap64 (acc * int d)) 1 dims"

definition py_sum :: "int list \<Rightarrow> int" where
  "py_sum zs = foldl (\<lambda>acc z. wrap64 (acc + z)) 0 zs"

definition true_divide :: "int \<Rightarrow> int \<Rightarrow> rat option" where
  "true_divide a b = (if b = 0 then None else Some (of_int a / of_int b))"

record report =
  vanilla_params :: "(role \<times> int) list"
  total_vanilla_params :: int
  mobile_params :: "(role \<times> int) list"
  total_mobile_params :: int
  reduction :: "rat option"

definition compare_params :: "bool \<Rightarrow> nat \<Rightarrow> nat \<Rightarrow> nat \<Rightarrow> error + report" where
  "compare_params rejects_empty INPUT_CHANNELS OUTPUT_CHANNELS KERNEL_SIZE =
     (let x = INPUT_CHANNELS in
      case vanilla_conv_block rejects_empty x KERNEL_SIZE OUTPUT_CHANNELS [] of
        Inl e \<Rightarrow> Inl e
      | Inr (vanilla_conv, vanilla) \<Rightarrow>
     (case mobilenet_conv_block rejects_empty x KERNEL_SIZE OUTPUT_CHANNELS [] of
        Inl e \<Rightarrow> Inl e
      | Inr (mobilenet_conv, mobile) \<Rightarrow>
     (let vp = map (\<lambda>v. (role v, np_prod (shape v))) vanilla;
          mp = map (\<lambda>v. (role v, np_prod (shape v))) mobile;
          tv = py_sum (map snd vp);
          tm = py_sum (map snd mp)
      in Inr \<lparr>vanilla_params = vp, total_vanilla_params = tv,
              mobile_params = mp, total_mobile_params = tm,
              reduction = true_divide tv tm\<rparr>)))"

section \<open>Concrete inputs\<close>

text \<open>
  Three detections, stored at the references 0 (boxes), 1 (scores) and 2 (classes),
  serve as the concrete input of the examples below.
\<close>

definition three_boxes :: "box list" where
  "three_boxes = [(1/10, 1/10, 1/2, 1/2), (1/5, 3/10, 2/5, 1/2), (1/2, 1/4, 1, 3/4)]"

definition batch3 :: store where
  "batch3 = \<lparr>mats = (\<lambda>r. [])(0 := three_boxes),
             vecs = (\<lambda>r. [])(1 := [9/10, 1/2, 4/5], 2 := [3, 1, 17]),
             fresh = 3\<rparr>"

text \<open>The first five colour names of the sorted list, and one box in pixels.\<close>

definition five_colors :: "string list" where
  "five_colors = [''aliceblue'', ''antiquewhite'', ''aqua'', ''aquamarine'', ''azure'']"

definition one_box :: "box list" where
  "one_box = [(1, 2, 3, 4)]"

text \<open>
  Arrays of unequal lengths: one box at reference 0, two values at reference 1 and one
  value at reference 2.
\<close>

definition ragged :: store where
  "ragged = \<lparr>mats = (\<lambda>r. [])(0 := [(1/10, 1/10, 1/2, 1/2)]),
             vecs = (\<lambda>r. [])(1 := [9/10, 1/2], 2 := [3]),
             fresh = 3\<rparr>"

section \<open>Properties of filter_boxes\<close>

text \<open>Index collection and fancy indexing in closed form.\<close>

lemma take_rows_eq:
  "take_rows xs idxs =
     (if list_all (\<lambda>i. i < length xs) idxs then Inr (map (nth xs) idxs) else Inl IndexError)"
  by (induction idxs) (simp_all add: np_get_def)

lemma collect_idxs_eq:
  "collect_idxs m scores todo idxs =
     (if list_all (\<lambda>i. i < length scores) todo
      then Inr (idxs @ filter (\<lambda>i. scores ! i \<ge> m) todo) else Inl IndexError)"
  by (induction todo arbitrary: idxs) (simp_all add: np_get_def)

lemma nth_filter_upt:
  "map (nth xs) (filter (\<lambda>i. P (xs ! i)) [0..<length xs]) = filter P xs"
proof -
  have "map (nth xs) (filter (\<lambda>i. P (xs ! i)) [0..<length xs])
        = filter P (map (nth xs) [0..<length xs])"
    by (simp add: filter_map comp_def)
  then show ?thesis by (simp add: map_nth)
qed

lemma map_nth_zip:
  "list_all (\<lambda>i. i < length xs \<and> i < length ys) idxs \<Longrightarrow>
   map (nth (zip xs ys)) idxs = zip (map (nth xs) idxs) (map (nth ys) idxs)"
  by (induction idxs) simp_all


lemma list_all_filter_upt:
  "n \<le> length ys \<Longrightarrow> list_all (\<lambda>i. i < length ys) (filter P [0..<n])"
  by (simp add: list_all_iff)

lemma list_all_upt: "list_all (\<lambda>i. i < k) [0..<n] \<longleftrightarrow> n \<le> k"
  by (auto simp: list_all_iff)

lemma filter_boxes_eq:
  assumes "c < fresh s"
  shows "filter_boxes s m b sc c =
    (let idxs = filter (\<lambda>i. vecs s sc ! i \<ge> m) [0..<length (vecs s c)] in
     if length (vecs s c) \<le> length (vecs s sc) \<and> list_all (\<lambda>i. i < length (mats s b)) idxs
     then Inr (s\<lparr>mats := (mats s)(fresh s := map (nth (mats s b)) idxs),
                vecs := (vecs s)(Suc (fresh s) := map (nth (vecs s sc)) idxs,
                                 Suc (Suc (fresh s)) := map (nth (vecs s c)) idxs),
                fresh := Suc (Suc (Suc (fresh s)))\<rparr>, fresh s, Suc (fresh s), Suc (Suc (fresh s)))
     else Inl IndexError)"
proof -
  let ?n = "length (vecs s c)"
  let ?idxs = "filter (\<lambda>i. vecs s sc ! i \<ge> m) [0..<?n]"
  show ?thesis
  proof (cases "?n \<le> length (vecs s sc)")
    case False
    then show ?thesis
      by (simp add: filter_boxes_def collect_idxs_eq list_all_upt)
  next
    case le: True
    have in_sc: "list_all (\<lambda>i. i < length (vecs s sc)) ?idxs"
      using le by (rule list_all_filter_upt)
    have in_c: "list_all (\<lambda>i. i < length (vecs s c)) ?idxs"
      by (rule list_all_filter_upt) simp
    have c_ne: "c \<noteq> Suc (fresh s)" using assms by simp
    show ?thesis
      using le in_sc in_c c_ne
      by (simp add: filter_boxes_def collect_idxs_eq list_all_upt take_rows_eq
            new_mat_def new_vec_def Let_def)
  qed
qed


lemma filter_detections:
  fixes m :: rat
  assumes "length xs = n" "length ys = n" "length zs = n"
  defines "idxs \<equiv> filter (\<lambda>i. ys ! i \<ge> m) [0..<n]"
  shows "filter (\<lambda>d. score_of d \<ge> m) (zip xs (zip ys zs))
         = zip (map (nth xs) idxs) (zip (map (nth ys) idxs) (map (nth zs) idxs))"
proof -
  let ?ds = "zip xs (zip ys zs)"
  have len: "length ?ds = n" using assms(1-3) by simp
  have same: "filter (\<lambda>i. score_of (?ds ! i) \<ge> m) [0..<n] = idxs"
    unfolding idxs_def using assms(1-3)
    by (intro filter_cong) (simp_all add: score_of_def)
  have "filter (\<lambda>d. score_of d \<ge> m) ?ds
        = map (nth ?ds) (filter (\<lambda>i. score_of (?ds ! i) \<ge> m) [0..<length ?ds])"
    by (rule nth_filter_upt [symmetric])
  also have "\<dots> = map (nth ?ds) idxs"
    using len same by simp
  also have "\<dots> = zip (map (nth xs) idxs) (map (nth (zip ys zs)) idxs)"
    by (rule map_nth_zip) (simp add: idxs_def list_all_iff assms(1-3))
  also have "map (nth (zip ys zs)) idxs = zip (map (nth ys) idxs) (map (nth zs) idxs)"
    by (rule map_nth_zip) (simp add: idxs_def list_all_iff assms(1-3))
  finally show ?thesis .
qed

text \<open>
  C1. When the three arrays of a batch have the same length \<open>n\<close>, \<open>filter_boxes\<close>
  returns, for every threshold \<open>min_score\<close> (in particular every one in [0,1]), a new
  batch that holds exactly the detections whose score is at least \<open>min_score\<close>, in their
  original relative order: the result is the stable filter of the input, every retained
  detection has a score of at least \<open>min_score\<close>, every detection with such a score is
  retained, the retained rows are those of a strictly increasing list of indices (a
  subsequence of the input), and every array that existed before the call, the three
  inputs among them, is unchanged.
\<close>

theorem filter_boxes_keeps_exactly:
  assumes inv: "length (mats s boxes) = n" "length (vecs s scores) = n"
               "length (vecs s classes) = n"
    and alloc: "boxes < fresh s" "scores < fresh s" "classes < fresh s"
  shows "\<exists>s' fb fs fc.
      filter_boxes s min_score boxes scores classes = Inr (s', fb, fs, fc)
    \<and> detections s' fb fs fc
        = filter (\<lambda>d. score_of d \<ge> min_score) (detections s boxes scores classes)
    \<and> (\<forall>d \<in> set (detections s' fb fs fc). score_of d \<ge> min_score)
    \<and> (\<forall>d \<in> set (detections s boxes scores classes).
          score_of d \<ge> min_score \<longrightarrow> d \<in> set (detections s' fb fs fc))
    \<and> subseq (detections s' fb fs fc) (detections s boxes scores classes)
    \<and> (\<exists>idxs. sorted_wrt (<) idxs
          \<and> set idxs = {i. i < n \<and> vecs s scores ! i \<ge> min_score}
          \<and> mats s' fb = map (nth (mats s boxes)) idxs
          \<and> vecs s' fs = map (nth (vecs s scores)) idxs
          \<and> vecs s' fc = map (nth (vecs s classes)) idxs)
    \<and> (\<forall>r < fresh s. mats s' r = mats s r \<and> vecs s' r = vecs s r)"
proof -
  define idxs where "idxs = filter (\<lambda>i. vecs s scores ! i \<ge> min_score) [0..<n]"
  define s' where "s' = s\<lparr>mats := (mats s)(fresh s := map (nth (mats s boxes)) idxs),
                vecs := (vecs s)(Suc (fresh s) := map (nth (vecs s scores)) idxs,
                                 Suc (Suc (fresh s)) := map (nth (vecs s classes)) idxs),
                fresh := Suc (Suc (Suc (fresh s)))\<rparr>"
  have in_b: "list_all (\<lambda>i. i < length (mats s boxes)) idxs"
    unfolding idxs_def by (rule list_all_filter_upt) (simp add: inv)
  have run: "filter_boxes s min_score boxes scores classes
             = Inr (s', fresh s, Suc (fresh s), Suc (Suc (fresh s)))"
    using in_b inv by (simp add: filter_boxes_eq [OF alloc(3)] idxs_def s'_def Let_def)
  have rows: "mats s' (fresh s) = map (nth (mats s boxes)) idxs"
       "vecs s' (Suc (fresh s)) = map (nth (vecs s scores)) idxs"
       "vecs s' (Suc (Suc (fresh s))) = map (nth (vecs s classes)) idxs"
    by (simp_all add: s'_def)
  have dets: "detections s' (fresh s) (Suc (fresh s)) (Suc (Suc (fresh s)))
        = filter (\<lambda>d. score_of d \<ge> min_score) (detections s boxes scores classes)"
    unfolding detections_def rows idxs_def
    by (rule filter_detections [OF inv, symmetric])
  have frame: "\<forall>r < fresh s. mats s' r = mats s r \<and> vecs s' r = vecs s r"
    by (simp add: s'_def)
  have sorted_idxs: "sorted_wrt (<) idxs"
    unfolding idxs_def by (rule sorted_wrt_filter) simp
  have set_idxs: "set idxs = {i. i < n \<and> vecs s scores ! i \<ge> min_score}"
    unfolding idxs_def by auto
  show ?thesis
    apply (intro exI conjI)
          apply (rule run)
         apply (rule dets)
        apply (simp add: dets)
       apply (simp add: dets)
      apply (simp add: dets)
     apply (rule sorted_idxs)
        apply (rule set_idxs)
       apply (rule rows)+
    apply (rule frame)
    done
qed


theorem filter_boxes_keeps_exactly_witness:
  "length (mats batch3 0) = 3 \<and> length (vecs batch3 1) = 3 \<and> length (vecs batch3 2) = 3
   \<and> 0 < fresh batch3 \<and> 1 < fresh batch3 \<and> 2 < fresh batch3
   \<and> (\<exists>s' fb fs fc. filter_boxes batch3 (4/5) 0 1 2 = Inr (s', fb, fs, fc)
        \<and> detections s' fb fs fc
            = [((1/10, 1/10, 1/2, 1/2), 9/10, 3), ((1/2, 1/4, 1, 3/4), 4/5, 17)]
        \<and> mats s' 0 = three_boxes \<and> vecs s' 1 = [9/10, 1/2, 4/5] \<and> vecs s' 2 = [3, 1, 17])"
proof -
  have h: "length (mats batch3 0) = 3" "length (vecs batch3 1) = 3"
          "length (vecs batch3 2) = 3"
          "0 < fresh batch3" "1 < fresh batch3" "2 < fresh batch3"
    by (simp_all add: batch3_def three_boxes_def)
  from filter_boxes_keeps_exactly [OF h, of "4/5"]
  obtain s' fb fs fc where
    run: "filter_boxes batch3 (4/5) 0 1 2 = Inr (s', fb, fs, fc)" and
    dets: "detections s' fb fs fc
           = filter (\<lambda>d. score_of d \<ge> 4/5) (detections batch3 0 1 2)" and
    frame: "\<forall>r < fresh batch3. mats s' r = mats batch3 r \<and> vecs s' r = vecs batch3 r"
    by blast
  have kept: "filter (\<lambda>d. score_of d \<ge> 4/5) (detections batch3 0 1 2)
              = [((1/10, 1/10, 1/2, 1/2), 9/10, 3), ((1/2, 1/4, 1, 3/4), 4/5, 17)]"
    by (simp add: detections_def batch3_def three_boxes_def score_of_def)
  have old: "mats s' 0 = three_boxes" "vecs s' 1 = [9/10, 1/2, 4/5]" "vecs s' 2 = [3, 1, 17]"
    using frame by (simp_all add: batch3_def)
  show ?thesis
    using h run dets kept old by auto
qed

text \<open>
  C7. When the three arrays of a batch have the same length \<open>n\<close>, the three arrays
  that \<open>filter_boxes\<close> returns have one common length \<open>n'\<close> with \<open>n' \<le> n\<close>; when no
  score reaches the threshold the call still succeeds and returns three empty arrays.
\<close>

theorem filter_boxes_keeps_alignment:
  assumes inv: "length (mats s boxes) = n" "length (vecs s scores) = n"
               "length (vecs s classes) = n"
    and alloc: "classes < fresh s"
  shows "\<exists>s' fb fs fc n'.
      filter_boxes s min_score boxes scores classes = Inr (s', fb, fs, fc)
    \<and> length (mats s' fb) = n' \<and> length (vecs s' fs) = n' \<and> length (vecs s' fc) = n'
    \<and> n' \<le> n
    \<and> ((\<forall>i < n. vecs s scores ! i < min_score)
          \<longrightarrow> mats s' fb = [] \<and> vecs s' fs = [] \<and> vecs s' fc = [])"
proof -
  define idxs where "idxs = filter (\<lambda>i. vecs s scores ! i \<ge> min_score) [0..<n]"
  define s' where "s' = s\<lparr>mats := (mats s)(fresh s := map (nth (mats s boxes)) idxs),
                vecs := (vecs s)(Suc (fresh s) := map (nth (vecs s scores)) idxs,
                                 Suc (Suc (fresh s)) := map (nth (vecs s classes)) idxs),
                fresh := Suc (Suc (Suc (fresh s)))\<rparr>"
  have in_b: "list_all (\<lambda>i. i < length (mats s boxes)) idxs"
    unfolding idxs_def by (rule list_all_filter_upt) (simp add: inv)
  have run: "filter_boxes s min_score boxes scores classes
             = Inr (s', fresh s, Suc (fresh s), Suc (Suc (fresh s)))"
    using in_b inv by (simp add: filter_boxes_eq [OF alloc] idxs_def s'_def Let_def)
  have lens: "length (mats s' (fresh s)) = length idxs"
       "length (vecs s' (Suc (fresh s))) = length idxs"
       "length (vecs s' (Suc (Suc (fresh s)))) = length idxs"
    by (simp_all add: s'_def)
  have le: "length idxs \<le> n"
    using length_filter_le [of "\<lambda>i. vecs s scores ! i \<ge> min_score" "[0..<n]"]
    by (simp add: idxs_def)
  have none: "(\<forall>i < n. vecs s scores ! i < min_score) \<longrightarrow> idxs = []"
    by (auto simp: idxs_def filter_empty_conv)
  have empty: "(\<forall>i < n. vecs s scores ! i < min_score)
      \<longrightarrow> mats s' (fresh s) = [] \<and> vecs s' (Suc (fresh s)) = []
          \<and> vecs s' (Suc (Suc (fresh s))) = []"
    using none by (simp add: s'_def)
  show ?thesis
    using run lens le empty by blast
qed

theorem filter_boxes_keeps_alignment_witness:
  "length (mats batch3 0) = 3 \<and> length (vecs batch3 1) = 3 \<and> length (vecs batch3 2) = 3
   \<and> 2 < fresh batch3
   \<and> vecs batch3 1 ! 0 < 19/20 \<and> vecs batch3 1 ! 1 < 19/20 \<and> vecs batch3 1 ! 2 < 19/20
   \<and> (\<exists>s' fb fs fc. filter_boxes batch3 (19/20) 0 1 2 = Inr (s', fb, fs, fc)
        \<and> mats s' fb = [] \<and> vecs s' fs = [] \<and> vecs s' fc = [])"
proof -
  have h: "length (mats batch3 0) = 3" "length (vecs batch3 1) = 3"
          "length (vecs batch3 2) = 3" "2 < fresh batch3"
    by (simp_all add: batch3_def three_boxes_def)
  have low: "\<forall>i < 3. vecs batch3 1 ! i < 19/20"
    by (simp add: batch3_def less_Suc_eq numeral_3_eq_3)
  have each: "vecs batch3 1 ! 0 < 19/20" "vecs batch3 1 ! 1 < 19/20" "vecs batch3 1 ! 2 < 19/20"
    by (simp_all add: batch3_def)
  show ?thesis
    using h low each filter_boxes_keeps_alignment [OF h, of "19/20"] by blast
qed

section \<open>Properties of to_image_coords\<close>

text \<open>Each column assignment in closed form, then the whole function.\<close>

lemma map2_same:
  "map2 f (map g xs) (map h xs) = map (\<lambda>x. f (g x) (h x)) xs"
  by (induction xs) simp_all

lemma assign_column_map:
  assumes "mats s a = map h xs"
  shows "assign_column s a k (map g xs)
         = Inr (s\<lparr>mats := (mats s)(a := map (\<lambda>x. set_col k (g x) (h x)) xs)\<rparr>)"
  by (simp add: assign_column_def assms map2_same)

lemma scaled_column:
  "times_scalar (column s a k) x = map (\<lambda>b. get_col k b * x) (mats s a)"
  by (simp add: times_scalar_def column_def)

lemma to_image_coords_eq:
  assumes "boxes < fresh s"
  shows "to_image_coords s boxes height width =
     Inr (s\<lparr>mats := (mats s)(fresh s :=
               map (\<lambda>(c0, c1, c2, c3). (c0 * height, c1 * width, c2 * height, c3 * width))
                 (mats s boxes)),
            fresh := Suc (fresh s)\<rparr>, fresh s)"
proof -
  let ?r = "fresh s"
  let ?bs = "mats s boxes"
  have ne: "boxes \<noteq> ?r" using assms by simp
  define s0 where "s0 = s\<lparr>mats := (mats s)(?r := map (\<lambda>row. (0, 0, 0, 0)) ?bs),
                           fresh := Suc ?r\<rparr>"
  define s1 where "s1 = s0\<lparr>mats := (mats s0)(?r :=
      map (\<lambda>b. set_col Col0 (get_col Col0 b * height) (0, 0, 0, 0)) ?bs)\<rparr>"
  define s2 where "s2 = s1\<lparr>mats := (mats s1)(?r :=
      map (\<lambda>b. set_col Col1 (get_col Col1 b * width)
                 (set_col Col0 (get_col Col0 b * height) (0, 0, 0, 0))) ?bs)\<rparr>"
  define s3 where "s3 = s2\<lparr>mats := (mats s2)(?r :=
      map (\<lambda>b. set_col Col2 (get_col Col2 b * height)
                 (set_col Col1 (get_col Col1 b * width)
                   (set_col Col0 (get_col Col0 b * height) (0, 0, 0, 0)))) ?bs)\<rparr>"
  define s4 where "s4 = s3\<lparr>mats := (mats s3)(?r :=
      map (\<lambda>b. set_col Col3 (get_col Col3 b * width)
                 (set_col Col2 (get_col Col2 b * height)
                   (set_col Col1 (get_col Col1 b * width)
                     (set_col Col0 (get_col Col0 b * height) (0, 0, 0, 0))))) ?bs)\<rparr>"
  have z: "zeros_like s boxes = (s0, ?r)"
    by (simp add: zeros_like_def new_mat_def s0_def)
  have src: "mats s0 boxes = ?bs" "mats s1 boxes = ?bs" "mats s2 boxes = ?bs"
            "mats s3 boxes = ?bs"
    using ne by (simp_all add: s0_def s1_def s2_def s3_def)
  have a0: "assign_column s0 ?r Col0 (times_scalar (column s0 boxes Col0) height) = Inr s1"
    unfolding scaled_column src s1_def
    by (rule assign_column_map) (simp add: s0_def)
  have a1: "assign_column s1 ?r Col1 (times_scalar (column s1 boxes Col1) width) = Inr s2"
    unfolding scaled_column src s2_def
    by (rule assign_column_map) (simp add: s1_def)
  have a2: "assign_column s2 ?r Col2 (times_scalar (column s2 boxes Col2) height) = Inr s3"
    unfolding scaled_column src s3_def
    by (rule assign_column_map) (simp add: s2_def)
  have a3: "assign_column s3 ?r Col3 (times_scalar (column s3 boxes Col3) width) = Inr s4"
    unfolding scaled_column src s4_def
    by (rule assign_column_map) (simp add: s3_def)
  have run: "to_image_coords s boxes height width = Inr (s4, ?r)"
    by (simp add: to_image_coords_def z a0 a1 a2 a3)
  have rows: "(\<lambda>b. (get_col Col0 b * height, get_col Col1 b * width,
                     get_col Col2 b * height, get_col Col3 b * width))
        = (\<lambda>(c0, c1, c2, c3). (c0 * height, c1 * width, c2 * height, c3 * width))"
    by (rule ext) (simp split: prod.splits)
  have "s4 = s\<lparr>mats := (mats s)(?r :=
               map (\<lambda>(c0, c1, c2, c3). (c0 * height, c1 * width, c2 * height, c3 * width)) ?bs),
            fresh := Suc ?r\<rparr>"
    by (simp add: s4_def s3_def s2_def s1_def s0_def rows)
  with run show ?thesis by simp
qed


lemma assign_column_ok:
  assumes "length (mats s b) = length (mats s a)"
  shows "\<exists>s'. assign_column s a k (times_scalar (column s b k') x) = Inr s'
              \<and> length (mats s' b) = length (mats s' a)"
  using assms by (simp add: assign_column_def times_scalar_def column_def)

lemma to_image_coords_succeeds:
  "\<exists>res. to_image_coords s boxes height width = Inr res"
proof -
  obtain s0 r where z: "zeros_like s boxes = (s0, r)"
    by (cases "zeros_like s boxes")
  have l0: "length (mats s0 boxes) = length (mats s0 r)"
    using z by (auto simp: zeros_like_def new_mat_def)
  from assign_column_ok [OF l0] obtain s1 where
    a0: "assign_column s0 r Col0 (times_scalar (column s0 boxes Col0) height) = Inr s1"
    and l1: "length (mats s1 boxes) = length (mats s1 r)" by blast
  from assign_column_ok [OF l1] obtain s2 where
    a1: "assign_column s1 r Col1 (times_scalar (column s1 boxes Col1) width) = Inr s2"
    and l2: "length (mats s2 boxes) = length (mats s2 r)" by blast
  from assign_column_ok [OF l2] obtain s3 where
    a2: "assign_column s2 r Col2 (times_scalar (column s2 boxes Col2) height) = Inr s3"
    and l3: "length (mats s3 boxes) = length (mats s3 r)" by blast
  from assign_column_ok [OF l3] obtain s4 where
    a3: "assign_column s3 r Col3 (times_scalar (column s3 boxes Col3) width) = Inr s4"
    by blast
  show ?thesis
    by (simp add: to_image_coords_def z a0 a1 a2 a3)
qed

text \<open>
  C2. For every array of boxes and every height and width, \<open>to_image_coords\<close> returns a
  new array of the same length in which, row by row, components 0 and 2 are multiplied by
  the height and components 1 and 3 by the width, with the order of the components kept;
  the array of the input boxes and every other array that existed before the call are
  unchanged. In particular the box (0.5, 0.25, 1.0, 0.75) with height 600 and width 1000
  becomes (300, 250, 600, 750), the third row of the example that follows the theorem.
\<close>

theorem to_image_coords_scales_rows:
  assumes "boxes < fresh s"
  shows "\<exists>s' box_coords.
      to_image_coords s boxes height width = Inr (s', box_coords)
    \<and> length (mats s' box_coords) = length (mats s boxes)
    \<and> mats s' box_coords
        = map (\<lambda>(c0, c1, c2, c3). (c0 * height, c1 * width, c2 * height, c3 * width))
            (mats s boxes)
    \<and> box_coords \<noteq> boxes
    \<and> mats s' boxes = mats s boxes
    \<and> (\<forall>r < fresh s. mats s' r = mats s r)
    \<and> vecs s' = vecs s"
  using assms by (simp add: to_image_coords_eq)

theorem to_image_coords_scales_rows_witness:
  "0 < fresh batch3
   \<and> (\<exists>s' box_coords.
        to_image_coords batch3 0 600 1000 = Inr (s', box_coords)
      \<and> mats s' box_coords = [(60, 100, 300, 500), (120, 300, 240, 500), (300, 250, 600, 750)]
      \<and> mats s' 0 = [(1/10, 1/10, 1/2, 1/2), (1/5, 3/10, 2/5, 1/2), (1/2, 1/4, 1, 3/4)])"
proof -
  have h: "0 < fresh batch3" by (simp add: batch3_def)
  from to_image_coords_scales_rows [OF h, of 600 1000]
  obtain s' box_coords where
    run: "to_image_coords batch3 0 600 1000 = Inr (s', box_coords)" and
    rows: "mats s' box_coords
        = map (\<lambda>(c0, c1, c2, c3). (c0 * 600, c1 * 1000, c2 * 600, c3 * 1000)) (mats batch3 0)"
    and same: "mats s' 0 = mats batch3 0"
    by blast
  have "map (\<lambda>(c0, c1, c2, c3). (c0 * 600, c1 * 1000, c2 * 600, c3 * 1000)) (mats batch3 0)
        = [(60, 100, 300, 500), (120, 300, 240, 500), (300, 250, 600, 750)]"
    by (simp add: batch3_def three_boxes_def)
  moreover have "mats batch3 0 = [(1/10, 1/10, 1/2, 1/2), (1/5, 3/10, 2/5, 1/2), (1/2, 1/4, 1, 3/4)]"
    by (simp add: batch3_def three_boxes_def)
  ultimately show ?thesis
    using h run rows same by auto
qed

text \<open>
  C8. Round trip, exactly over the rationals: for a positive height and width, dividing
  the components of each row of \<open>to_image_coords\<close>' result by height, width, height and
  width gives back the input boxes. This holds for all coordinates, so for those in [0,1].
\<close>

theorem to_image_coords_round_trip:
  assumes "boxes < fresh s" and "0 < height" and "0 < width"
  shows "\<exists>s' box_coords.
      to_image_coords s boxes height width = Inr (s', box_coords)
    \<and> map (\<lambda>(c0, c1, c2, c3). (c0 / height, c1 / width, c2 / height, c3 / width))
         (mats s' box_coords)
       = mats s boxes"
proof -
  have inv_rows: "map ((\<lambda>(c0, c1, c2, c3). (c0 / height, c1 / width, c2 / height, c3 / width))
               \<circ> (\<lambda>(c0, c1, c2, c3). (c0 * height, c1 * width, c2 * height, c3 * width))) bs
             = bs" for bs :: "box list"
    using assms(2,3) by (induction bs) auto
  show ?thesis
    using assms(1) inv_rows by (simp add: to_image_coords_eq)
qed

theorem to_image_coords_round_trip_witness:
  "0 < fresh batch3 \<and> (0::rat) < 600 \<and> (0::rat) < 1000
   \<and> (\<exists>s' box_coords.
        to_image_coords batch3 0 600 1000 = Inr (s', box_coords)
      \<and> map (\<lambda>(c0, c1, c2, c3). (c0 / 600, c1 / 1000, c2 / 600, c3 / 1000)) (mats s' box_coords)
         = [(1/10, 1/10, 1/2, 1/2), (1/5, 3/10, 2/5, 1/2), (1/2, 1/4, 1, 3/4)])"
proof -
  have h: "0 < fresh batch3" "(0::rat) < 600" "(0::rat) < 1000"
    by (simp_all add: batch3_def)
  have "mats batch3 0 = [(1/10, 1/10, 1/2, 1/2), (1/5, 3/10, 2/5, 1/2), (1/2, 1/4, 1, 3/4)]"
    by (simp add: batch3_def three_boxes_def)
  then show ?thesis
    using h to_image_coords_round_trip [OF h] by auto
qed

section \<open>What the two functions do with malformed input\<close>

text \<open>
  C3, as the code has it. Neither function validates its input and neither has an
  error of its own. \<open>filter_boxes\<close> accepts every threshold, inside or outside [0,1]; it
  succeeds exactly when \<open>scores\<close> is at least as long as \<open>classes\<close> and every index below
  the length of \<open>classes\<close> whose score reaches the threshold is a row of \<open>boxes\<close>, and
  otherwise it raises NumPy's IndexError. \<open>to_image_coords\<close> takes neither a batch nor a
  threshold and succeeds on every array of boxes, for every height and width.
\<close>

theorem no_input_validation:
  assumes "classes < fresh s"
  shows "((\<exists>res. filter_boxes s min_score boxes scores classes = Inr res)
           \<longleftrightarrow> length (vecs s classes) \<le> length (vecs s scores)
               \<and> (\<forall>i < length (vecs s classes).
                     vecs s scores ! i \<ge> min_score \<longrightarrow> i < length (mats s boxes)))
       \<and> (filter_boxes s min_score boxes scores classes = Inl IndexError
           \<or> (\<exists>res. filter_boxes s min_score boxes scores classes = Inr res))
       \<and> (\<exists>res. to_image_coords s boxes height width = Inr res)"
proof -
  let ?idxs = "filter (\<lambda>i. vecs s scores ! i \<ge> min_score) [0..<length (vecs s classes)]"
  have bound: "list_all (\<lambda>i. i < length (mats s boxes)) ?idxs
      \<longleftrightarrow> (\<forall>i < length (vecs s classes).
             vecs s scores ! i \<ge> min_score \<longrightarrow> i < length (mats s boxes))"
    by (auto simp: list_all_iff)
  have 1: "(\<exists>res. filter_boxes s min_score boxes scores classes = Inr res)
           \<longleftrightarrow> length (vecs s classes) \<le> length (vecs s scores)
               \<and> (\<forall>i < length (vecs s classes).
                     vecs s scores ! i \<ge> min_score \<longrightarrow> i < length (mats s boxes))"
    unfolding bound [symmetric]
    by (simp add: filter_boxes_eq [OF assms] Let_def)
  have 2: "filter_boxes s min_score boxes scores classes = Inl IndexError
           \<or> (\<exists>res. filter_boxes s min_score boxes scores classes = Inr res)"
    by (simp add: filter_boxes_eq [OF assms] Let_def)
  show ?thesis
    using 1 2 to_image_coords_succeeds [of s boxes height width] by blast
qed

theorem no_input_validation_witness:
  "2 < fresh batch3 \<and> \<not> (2::rat) \<le> 1
   \<and> (\<exists>res. filter_boxes batch3 2 0 1 2 = Inr res)
   \<and> (\<exists>res. to_image_coords batch3 0 600 1000 = Inr res)"
proof -
  have h: "2 < fresh batch3" by (simp add: batch3_def)
  have ok: "length (vecs batch3 2) \<le> length (vecs batch3 1)
      \<and> (\<forall>i < length (vecs batch3 2). vecs batch3 1 ! i \<ge> 2 \<longrightarrow> i < length (mats batch3 0))"
    by (simp add: batch3_def three_boxes_def)
  show ?thesis
    using h ok no_input_validation [OF h, of 2 0 1 600 1000] by simp
qed

text \<open>
  The claim C3 as stated fails: the threshold 2 lies outside [0,1] and the call succeeds
  with an empty batch; arrays of lengths 1, 2 and 1 are filtered without an error; and
  when \<open>scores\<close> is the shorter array the error is IndexError.
\<close>

theorem threshold_out_of_range_accepted:
  "\<not> (2::rat) \<le> 1
   \<and> returned_batch (filter_boxes batch3 2 0 1 2) = Inr ([], [], [])
   \<and> length (vecs ragged 1) \<noteq> length (vecs ragged 2)
   \<and> returned_batch (filter_boxes ragged (1/2) 0 1 2)
       = Inr ([(1/10, 1/10, 1/2, 1/2)], [9/10], [3])
   \<and> filter_boxes ragged (1/2) 0 2 1 = Inl IndexError"
proof -
  have a: "returned_batch (filter_boxes batch3 2 0 1 2) = Inr ([], [], [])"
    by (simp add: returned_batch_def filter_boxes_def batch3_def three_boxes_def np_get_def
        new_mat_def new_vec_def upt_rec)
  have b: "returned_batch (filter_boxes ragged (1/2) 0 1 2)
       = Inr ([(1/10, 1/10, 1/2, 1/2)], [9/10], [3])"
    by (simp add: returned_batch_def filter_boxes_def ragged_def np_get_def new_mat_def
        new_vec_def)
  have c: "filter_boxes ragged (1/2) 0 2 1 = Inl IndexError"
    by (simp add: filter_boxes_def ragged_def np_get_def upt_rec)
  have d: "length (vecs ragged 1) \<noteq> length (vecs ragged 2)"
    by (simp add: ragged_def)
  show ?thesis using a b c d by simp
qed

section \<open>Properties of draw_boxes\<close>

text \<open>
  What a run of the loop without an exception has drawn, and which exception a run can
  end in.
\<close>

lemma draw_loop_success:
  assumes "draw_loop C boxes classes th todo img = (img', None)"
  shows "img' = img @ map (\<lambda>i. \<lparr>xy = (case boxes ! i of (c0, c1, c2, c3) \<Rightarrow>
                                      [(c1, c2), (c1, c0), (c3, c0), (c3, c2), (c1, c2)]),
                              line_width = th,
                              fill = projr (list_getitem C (py_int (classes ! i)))\<rparr>) todo
       \<and> (\<forall>i \<in> set todo. i < length boxes \<and> i < length classes
             \<and> \<not> isl (list_getitem C (py_int (classes ! i))))"
  using assms
proof (induction todo arbitrary: img)
  case Nil
  then show ?case by simp
next
  case (Cons i rest)
  from Cons.prems have ib: "i < length boxes"
    by (auto simp: np_get_def split: if_splits)
  obtain c0 c1 c2 c3 where row: "boxes ! i = (c0, c1, c2, c3)"
    by (cases "boxes ! i") auto
  from Cons.prems ib row have ic: "i < length classes"
    by (auto simp: np_get_def split: if_splits)
  from Cons.prems ib row ic obtain color where
    col: "list_getitem C (py_int (classes ! i)) = Inr color"
    by (cases "list_getitem C (py_int (classes ! i))") (auto simp: np_get_def)
  let ?l = "\<lparr>xy = [(c1, c2), (c1, c0), (c3, c0), (c3, c2), (c1, c2)],
              line_width = th, fill = color\<rparr>"
  from Cons.prems ib row ic col
  have rest: "draw_loop C boxes classes th rest (img @ [?l]) = (img', None)"
    by (simp add: np_get_def)
  from Cons.IH [OF rest] ib ic row col show ?case
    by simp
qed

lemma draw_loop_error:
  "draw_loop C boxes classes th todo img = (img', Some e) \<Longrightarrow> e = IndexError"
proof (induction todo arbitrary: img)
  case Nil
  then show ?case by simp
next
  case (Cons i rest)
  then show ?case
    by (auto simp: np_get_def list_getitem_def Let_def split: if_splits prod.splits sum.splits)
qed

lemma draw_boxes_success:
  assumes "draw_boxes C img boxes classes th = (img', None)"
  shows "length img' = length img + length boxes"
    and "i < length boxes \<Longrightarrow> i < length classes"
    and "i < length boxes \<Longrightarrow> \<not> isl (list_getitem C (py_int (classes ! i)))"
    and "i < length boxes \<Longrightarrow> img' ! (length img + i) =
          \<lparr>xy = (case boxes ! i of (c0, c1, c2, c3) \<Rightarrow>
                   [(c1, c2), (c1, c0), (c3, c0), (c3, c2), (c1, c2)]),
           line_width = th,
           fill = projr (list_getitem C (py_int (classes ! i)))\<rparr>"
    and "take (length img) img' = img"
  using draw_loop_success [OF assms [unfolded draw_boxes_def]]
  by (simp_all add: nth_append)


lemma list_getitem_too_large:
  "int (length C) \<le> z \<Longrightarrow> list_getitem C z = Inl IndexError"
  by (simp add: list_getitem_def)

lemma list_getitem_in_range:
  "0 \<le> z \<Longrightarrow> z < int (length C) \<Longrightarrow> list_getitem C z = Inr (C ! nat z)"
  by (simp add: list_getitem_def)

lemma py_int_truncates:
  "\<bar>of_int (py_int x)\<bar> \<le> \<bar>x\<bar> \<and> \<bar>x\<bar> < \<bar>of_int (py_int x)\<bar> + 1
   \<and> 0 \<le> of_int (py_int x) * x"
proof (cases "0 \<le> x")
  case True
  then have "0 \<le> \<lfloor>x\<rfloor>" by simp
  then have "(0::rat) \<le> of_int \<lfloor>x\<rfloor>" by simp
  moreover have "of_int \<lfloor>x\<rfloor> \<le> x" "x < of_int \<lfloor>x\<rfloor> + 1" by linarith+
  ultimately show ?thesis using True by (simp add: py_int_def)
next
  case False
  then have neg: "x < 0" by simp
  then have "\<lceil>x\<rceil> \<le> 0" by (simp add: ceiling_le_zero)
  then have c0: "(of_int \<lceil>x\<rceil> :: rat) \<le> 0" by simp
  have "x \<le> of_int \<lceil>x\<rceil>" "of_int \<lceil>x\<rceil> < x + 1" by linarith+
  with c0 neg show ?thesis
    by (simp add: py_int_def mult_nonpos_nonpos)
qed

text \<open>
  C9, as the code has it. The row of a box is unpacked as
  \<^verbatim>\<open>bot, left, top, right\<close>, so the name \<^verbatim>\<open>bot\<close> stands for component 0 and \<^verbatim>\<open>top\<close> for
  component 2. For a pixel box (top, left, bottom, right) = (c0, c1, c2, c3) the line that
  a successful call draws is the closed polyline
  (left, bottom) -> (left, top) -> (right, top) -> (right, bottom) -> (left, bottom):
  the four corners of the box, begun at (left, bottom). One line is drawn per box, in the
  order of the boxes, after the lines that the image had before.
\<close>

theorem draw_boxes_polyline:
  assumes "draw_boxes C img boxes classes th = (img', None)"
  shows "length img' = length img + length boxes
     \<and> take (length img) img' = img
     \<and> (\<forall>i < length boxes.
           xy (img' ! (length img + i))
           = (case boxes ! i of (c0, c1, c2, c3) \<Rightarrow>
                [(c1, c2), (c1, c0), (c3, c0), (c3, c2), (c1, c2)]))"
  using draw_boxes_success(1,4,5) [OF assms] by simp

theorem draw_boxes_polyline_witness:
  "draw_boxes five_colors [] one_box [0] 4
     = ([\<lparr>xy = [(2, 3), (2, 1), (4, 1), (4, 3), (2, 3)], line_width = 4,
          fill = ''aliceblue''\<rparr>], None)
   \<and> xy ([\<lparr>xy = [(2, 3), (2, 1), (4, 1), (4, 3), (2, 3)], line_width = 4,
          fill = ''aliceblue''\<rparr>] ! (length ([] :: image) + 0))
     = (case one_box ! 0 of (c0, c1, c2, c3) \<Rightarrow>
          [(c1, c2), (c1, c0), (c3, c0), (c3, c2), (c1, c2)])"
proof -
  have run: "draw_boxes five_colors [] one_box [0] 4
     = ([\<lparr>xy = [(2, 3), (2, 1), (4, 1), (4, 3), (2, 3)], line_width = 4,
          fill = ''aliceblue''\<rparr>], None)"
    by (simp add: draw_boxes_def one_box_def five_colors_def np_get_def py_int_def
        list_getitem_def)
  have "0 < length one_box" by (simp add: one_box_def)
  with draw_boxes_polyline [OF run] run show ?thesis by blast
qed

text \<open>
  The claim C9 as stated fails: for the pixel box (top, left, bottom, right) = (1, 2, 3, 4)
  the polyline is (2,3) -> (2,1) -> (4,1) -> (4,3) -> (2,3), not
  (left,top) -> (left,bottom) -> (right,bottom) -> (right,top) -> (left,top), which is
  (2,1) -> (2,3) -> (4,3) -> (4,1) -> (2,1).
\<close>

theorem polyline_starts_at_left_bottom:
  "map xy (fst (draw_boxes five_colors [] one_box [0] 4))
     = [[(2, 3), (2, 1), (4, 1), (4, 3), (2, 3)]]
   \<and> map xy (fst (draw_boxes five_colors [] one_box [0] 4))
     \<noteq> [[(2, 1), (2, 3), (4, 3), (4, 1), (2, 1)]]"
  by (simp add: draw_boxes_def one_box_def five_colors_def np_get_def py_int_def
      list_getitem_def)

text \<open>
  C4, as the code has it. The colour is \<^verbatim>\<open>COLOR_LIST[class_id]\<close>, without a modulo
  wrap. When a call succeeds, every class_id is below the length of the colour list, and
  a class_id from 0 on selects the colour at its own index, which is then also the index
  class_id mod len(COLOR_LIST). A class_id of len(COLOR_LIST) or more at any box makes the
  call end in IndexError.
\<close>

theorem draw_boxes_color_index:
  "(draw_boxes C img boxes classes th = (img', None) \<longrightarrow>
      (\<forall>i < length boxes.
         py_int (classes ! i) < int (length C)
       \<and> (0 \<le> py_int (classes ! i) \<longrightarrow>
            fill (img' ! (length img + i)) = C ! nat (py_int (classes ! i))
          \<and> nat (py_int (classes ! i)) mod length C = nat (py_int (classes ! i)))))
   \<and> (\<forall>i < length boxes. i < length classes \<longrightarrow> int (length C) \<le> py_int (classes ! i) \<longrightarrow>
         snd (draw_boxes C img boxes classes th) = Some IndexError)"
proof (intro conjI impI allI)
  fix i
  assume ok: "draw_boxes C img boxes classes th = (img', None)" and i: "i < length boxes"
  let ?z = "py_int (classes ! i)"
  from draw_boxes_success(3) [OF ok i] list_getitem_too_large [of C ?z]
  show small: "?z < int (length C)" by fastforce
  assume nonneg: "0 \<le> ?z"
  from draw_boxes_success(4) [OF ok i] list_getitem_in_range [OF nonneg small]
  show "fill (img' ! (length img + i)) = C ! nat ?z" by simp
  from nonneg small show "nat ?z mod length C = nat ?z" by simp
next
  fix i
  assume i: "i < length boxes" and large: "int (length C) \<le> py_int (classes ! i)"
  obtain img1 err where res: "draw_boxes C img boxes classes th = (img1, err)"
    by (cases "draw_boxes C img boxes classes th")
  have "err \<noteq> None"
  proof
    assume "err = None"
    with res have "draw_boxes C img boxes classes th = (img1, None)" by simp
    from draw_boxes_success(3) [OF this i] list_getitem_too_large [OF large]
    show False by simp
  qed
  then obtain e where "err = Some e" by auto
  with res draw_loop_error [of C boxes classes th "[0..<length boxes]" img img1 e]
  show "snd (draw_boxes C img boxes classes th) = Some IndexError"
    by (simp add: draw_boxes_def)
qed


theorem draw_boxes_color_index_witness:
  "draw_boxes five_colors [] one_box [3] 4
     = ([\<lparr>xy = [(2, 3), (2, 1), (4, 1), (4, 3), (2, 3)], line_width = 4,
          fill = ''aquamarine''\<rparr>], None)
   \<and> py_int 3 = 3 \<and> five_colors ! 3 = ''aquamarine'' \<and> (3::nat) mod length five_colors = 3
   \<and> int (length five_colors) \<le> py_int 5
   \<and> snd (draw_boxes five_colors [] one_box [5] 4) = Some IndexError"
proof -
  let ?l = "\<lparr>xy = [(2, 3), (2, 1), (4, 1), (4, 3), (2, 3)], line_width = 4,
             fill = ''aquamarine''\<rparr>"
  have run: "draw_boxes five_colors [] one_box [3] 4 = ([?l], None)"
    by (simp add: draw_boxes_def one_box_def five_colors_def np_get_def py_int_def
        list_getitem_def)
  have i: "0 < length one_box" "0 < length [5::rat]" by (simp_all add: one_box_def)
  have z: "py_int 3 = 3" "py_int 5 = 5" by (simp_all add: py_int_def)
  have large: "int (length five_colors) \<le> py_int ([5] ! 0)"
    by (simp add: z five_colors_def)
  from draw_boxes_color_index [of five_colors "[]" one_box "[3]" 4 "[?l]"] run
  have "\<forall>i < length one_box.
         py_int ([3] ! i) < int (length five_colors)
       \<and> (0 \<le> py_int ([3] ! i) \<longrightarrow>
            fill ([?l] ! (length ([] :: image) + i)) = five_colors ! nat (py_int ([3] ! i))
          \<and> nat (py_int ([3] ! i)) mod length five_colors = nat (py_int ([3] ! i)))"
    by blast
  with i(1) have "0 \<le> py_int ([3] ! 0) \<longrightarrow>
            fill ([?l] ! (length ([] :: image) + 0)) = five_colors ! nat (py_int ([3] ! 0))
          \<and> nat (py_int ([3] ! 0)) mod length five_colors = nat (py_int ([3] ! 0))"
    by blast
  then have "five_colors ! 3 = ''aquamarine'' \<and> (3::nat) mod length five_colors = 3"
    by (simp add: z)
  moreover
  from draw_boxes_color_index [of five_colors "[]" one_box "[5]" 4] i large
  have "snd (draw_boxes five_colors [] one_box [5] 4) = Some IndexError"
    by blast
  ultimately show ?thesis
    using run z large by simp
qed

text \<open>
  The claim C4 as stated fails: with five colours the class_id 5 would wrap to the
  index 0, the colour aliceblue; the call draws nothing and ends in IndexError.
\<close>

theorem class_id_beyond_palette_fails:
  "draw_boxes five_colors [] one_box [5] 4 = ([], Some IndexError)
   \<and> (5::nat) mod length five_colors = 0
   \<and> list_getitem five_colors 0 = Inr ''aliceblue''"
  by (simp add: draw_boxes_def one_box_def five_colors_def np_get_def py_int_def
      list_getitem_def)

text \<open>
  C10. The class value of each box is converted with \<^verbatim>\<open>int()\<close>, which truncates toward
  zero: when a call succeeds, the colour of the line of box \<open>i\<close> is the entry of the colour
  list at an integer \<open>z\<close> that is no larger in magnitude than the class value, less than
  one away from it, and not of the opposite sign. So the class value 3.9 selects the
  colour of class 3, as the example after the theorem shows.
\<close>

theorem draw_boxes_class_truncated:
  assumes "draw_boxes C img boxes classes th = (img', None)"
  shows "\<forall>i < length boxes. \<exists>z::int.
           \<bar>of_int z\<bar> \<le> \<bar>classes ! i\<bar> \<and> \<bar>classes ! i\<bar> < \<bar>of_int z\<bar> + 1
         \<and> 0 \<le> of_int z * (classes ! i)
         \<and> list_getitem C z = Inr (fill (img' ! (length img + i)))"
proof (intro allI impI)
  fix i
  assume i: "i < length boxes"
  let ?z = "py_int (classes ! i)"
  from draw_boxes_success(3,4) [OF assms i]
  have "list_getitem C ?z = Inr (fill (img' ! (length img + i)))"
    by (cases "list_getitem C ?z") simp_all
  with py_int_truncates [of "classes ! i"]
  show "\<exists>z::int. \<bar>of_int z\<bar> \<le> \<bar>classes ! i\<bar> \<and> \<bar>classes ! i\<bar> < \<bar>of_int z\<bar> + 1
         \<and> 0 \<le> of_int z * (classes ! i)
         \<and> list_getitem C z = Inr (fill (img' ! (length img + i)))"
    by blast
qed

theorem draw_boxes_class_truncated_witness:
  "draw_boxes five_colors [] one_box [39/10] 4
     = ([\<lparr>xy = [(2, 3), (2, 1), (4, 1), (4, 3), (2, 3)], line_width = 4,
          fill = ''aquamarine''\<rparr>], None)
   \<and> (\<exists>z::int. \<bar>of_int z\<bar> \<le> \<bar>39/10 :: rat\<bar> \<and> \<bar>39/10 :: rat\<bar> < \<bar>of_int z\<bar> + 1
         \<and> 0 \<le> of_int z * (39/10 :: rat)
         \<and> list_getitem five_colors z = Inr ''aquamarine'')
   \<and> list_getitem five_colors 3 = Inr ''aquamarine''"
proof -
  let ?l = "\<lparr>xy = [(2, 3), (2, 1), (4, 1), (4, 3), (2, 3)], line_width = 4,
             fill = ''aquamarine''\<rparr>"
  have fl: "\<lfloor>39/10 :: rat\<rfloor> = 3" by (simp add: floor_eq_iff)
  have run: "draw_boxes five_colors [] one_box [39/10] 4 = ([?l], None)"
    by (simp add: draw_boxes_def one_box_def five_colors_def np_get_def py_int_def
        list_getitem_def fl)
  have i: "0 < length one_box" by (simp add: one_box_def)
  from draw_boxes_class_truncated [OF run] i
  have "\<exists>z::int. \<bar>of_int z\<bar> \<le> \<bar>[39/10 :: rat] ! 0\<bar> \<and> \<bar>[39/10 :: rat] ! 0\<bar> < \<bar>of_int z\<bar> + 1
         \<and> 0 \<le> of_int z * ([39/10 :: rat] ! 0)
         \<and> list_getitem five_colors z = Inr (fill ([?l] ! (length ([] :: image) + 0)))"
    by blast
  then have "\<exists>z::int. \<bar>of_int z\<bar> \<le> \<bar>39/10 :: rat\<bar> \<and> \<bar>39/10 :: rat\<bar> < \<bar>of_int z\<bar> + 1
         \<and> 0 \<le> of_int z * (39/10 :: rat)
         \<and> list_getitem five_colors z = Inr ''aquamarine''"
    by simp
  moreover have "list_getitem five_colors 3 = Inr ''aquamarine''"
    by (simp add: list_getitem_def five_colors_def)
  ultimately show ?thesis using run by simp
qed

section \<open>Properties of the parameter count\<close>

text \<open>
  Numbers far from the 64-bit bounds are not wrapped. The variables of each block and
  the report of the cell in closed form.
\<close>

lemma wrap64_small: "- (2 ^ 63) \<le> z \<Longrightarrow> z < 2 ^ 63 \<Longrightarrow> wrap64 z = z"
proof -
  assume a: "- (2 ^ 63) \<le> z" "z < 2 ^ 63"
  have "(z + 2 ^ 63) mod 2 ^ 64 = z + 2 ^ 63"
    using a by (intro mod_pos_pos_trivial) simp_all
  then show ?thesis by (simp add: wrap64_def)
qed

lemma vanilla_vars:
  "vanilla_conv_block r x k c [] =
     (if x = 0 \<or> c = 0 then Inl ValueError
      else Inr (c, [\<lparr>role = Kernel, shape = [k, k, x, c]\<rparr>, \<lparr>role = Bias, shape = [c]\<rparr>,
                    \<lparr>role = Gamma, shape = [c]\<rparr>, \<lparr>role = Beta, shape = [c]\<rparr>]))"
  by (simp add: vanilla_conv_block_def conv2d_def batch_normalization_def relu_def)

lemma mobile_vars:
  "mobilenet_conv_block r x k c [] =
     (if x = 0 \<or> c = 0 then Inl ValueError
      else Inr (c, [\<lparr>role = Plain, shape = [k, k, x, 1]\<rparr>,
                    \<lparr>role = Gamma, shape = [x]\<rparr>, \<lparr>role = Beta, shape = [x]\<rparr>,
                    \<lparr>role = Kernel, shape = [1, 1, x, c]\<rparr>, \<lparr>role = Bias, shape = [c]\<rparr>,
                    \<lparr>role = Gamma, shape = [c]\<rparr>, \<lparr>role = Beta, shape = [c]\<rparr>]))"
  by (simp add: mobilenet_conv_block_def conv2d_def batch_normalization_def relu_def
      tf_Variable_def depthwise_conv2d_def)

lemma compare_params_eq:
  "compare_params r cin cout k =
    (if cin = 0 \<or> cout = 0 then Inl ValueError
     else Inr
     \<lparr>vanilla_params = [(Kernel, np_prod [k, k, cin, cout]), (Bias, np_prod [cout]),
                         (Gamma, np_prod [cout]), (Beta, np_prod [cout])],
      total_vanilla_params = py_sum [np_prod [k, k, cin, cout], np_prod [cout],
                                     np_prod [cout], np_prod [cout]],
      mobile_params = [(Plain, np_prod [k, k, cin, 1]), (Gamma, np_prod [cin]),
                       (Beta, np_prod [cin]), (Kernel, np_prod [1, 1, cin, cout]),
                       (Bias, np_prod [cout]), (Gamma, np_prod [cout]), (Beta, np_prod [cout])],
      total_mobile_params = py_sum [np_prod [k, k, cin, 1], np_prod [cin], np_prod [cin],
                                    np_prod [1, 1, cin, cout], np_prod [cout],
                                    np_prod [cout], np_prod [cout]],
      reduction = true_divide
        (py_sum [np_prod [k, k, cin, cout], np_prod [cout], np_prod [cout], np_prod [cout]])
        (py_sum [np_prod [k, k, cin, 1], np_prod [cin], np_prod [cin],
                 np_prod [1, 1, cin, cout], np_prod [cout], np_prod [cout], np_prod [cout]])\<rparr>)"
  by (simp add: compare_params_def vanilla_vars mobile_vars Let_def)

text \<open>
  C5, as the code has it. For KERNEL_SIZE = 3, INPUT_CHANNELS = 32 and
  OUTPUT_CHANNELS = 512, on either framework, the vanilla block counts the
  3*3*32*512 = 147456 kernel weights, the 512 biases of the convolution and the
  2 * 512 trainable parameters of batch normalization, 148992 in all; the MobileNet block
  counts the 288 depthwise weights, 2 * 32 parameters of the first batch normalization,
  the 32 * 512 = 16384 pointwise weights, the 512 biases of the pointwise convolution and
  2 * 512 parameters of the second batch normalization, 18272 in all. The reduction is
  148992 / 18272 = 4656 / 571, between 8.154 and 8.155.
\<close>

theorem compare_params_default:
  "compare_params rejects_empty 32 512 3 =
     Inr \<lparr>vanilla_params = [(Kernel, 147456), (Bias, 512), (Gamma, 512), (Beta, 512)],
      total_vanilla_params = 148992,
      mobile_params = [(Plain, 288), (Gamma, 32), (Beta, 32),
                       (Kernel, 16384), (Bias, 512), (Gamma, 512), (Beta, 512)],
      total_mobile_params = 18272,
      reduction = Some (4656 / 571)\<rparr>
   \<and> (8154 / 1000 :: rat) < 4656 / 571 \<and> (4656 / 571 :: rat) < 8155 / 1000"
  by (simp add: compare_params_eq np_prod_def py_sum_def wrap64_small true_divide_def)

text \<open>
  The claim C5 as stated fails: the totals are not the weights plus the batch
  normalization term, neither with two nor with four parameters per channel, because
  the 512 biases of each convolution are counted; and the reduction is below 8.2.
\<close>

theorem bias_is_counted:
  "map_sum id total_vanilla_params (compare_params True 32 512 3)
     = Inr (3 * 3 * 32 * 512 + 512 + 2 * 512)
   \<and> map_sum id total_vanilla_params (compare_params True 32 512 3)
       \<noteq> Inr (3 * 3 * 32 * 512 + 2 * 512)
   \<and> map_sum id total_vanilla_params (compare_params True 32 512 3)
       \<noteq> Inr (3 * 3 * 32 * 512 + 4 * 512)
   \<and> map_sum id total_mobile_params (compare_params True 32 512 3)
       = Inr ((3 * 3 * 32 + 32 * 512) + 512 + 2 * 32 + 2 * 512)
   \<and> map_sum id total_mobile_params (compare_params True 32 512 3)
       \<noteq> Inr ((3 * 3 * 32 + 32 * 512) + 2 * 32 + 2 * 512)
   \<and> map_sum id total_mobile_params (compare_params True 32 512 3)
       \<noteq> Inr ((3 * 3 * 32 + 32 * 512) + 4 * 32 + 4 * 512)
   \<and> map_sum id reduction (compare_params True 32 512 3) = Inr (Some (4656 / 571))
   \<and> (4656 / 571 :: rat) < 82 / 10"
  by (simp add: compare_params_eq np_prod_def py_sum_def wrap64_small true_divide_def)




end
